theory Spec2Isabelle
  imports Main "HOL-Library.Word"
begin

section \<open>Python values\<close>

text \<open>
  The program is \<^verbatim>\<open>main.py\<close>: a pydantic model \<^verbatim>\<open>Item\<close> and three route handlers
  registered on a FastAPI application. The handlers build dict literals from their
  parameters and never compute with them, so a Python \<^verbatim>\<open>float\<close> is represented by its
  IEEE-754 binary64 bit pattern: equality of bit patterns is the finest notion of
  ``the same float'', and no arithmetic on floats is ever needed. A Python \<^verbatim>\<open>int\<close> is
  unbounded: an \<open>int\<close>. A \<^verbatim>\<open>str\<close> is a \<open>string\<close>, the list of the bytes of its UTF-8
  encoding; the handlers only pass strings on.
\<close>

type_synonym py_float = "64 word"

text \<open>
  The literal \<^verbatim>\<open>1.5\<close>: sign 0, biased exponent \<open>0x3FF\<close> (that is, \<open>2 ^ 0\<close>) and
  fraction \<open>0x8000000000000\<close> (that is, \<open>1 + 1 / 2\<close>).
\<close>

definition float_1_5 :: py_float where
  "float_1_5 = 0x3FF8000000000000"

text \<open>The values that the handlers store in the dicts they return.\<close>

datatype py_value =
    PyNone
  | PyBool bool
  | PyInt int
  | PyFloat py_float
  | PyStr string

text \<open>
  A dict literal, as the list of its items in insertion order. Equality of two such
  lists implies equality of the dicts (which Python compares without regard to order).
\<close>

type_synonym py_dict = "(string \<times> py_value) list"

text \<open>
  A parameter annotated \<^verbatim>\<open>str\<close> or \<^verbatim>\<open>bool\<close> with the default \<^verbatim>\<open>None\<close> holds either
  a value of the annotated type or \<^verbatim>\<open>None\<close>: an \<open>option\<close>.
\<close>

fun py_opt_str :: "string option \<Rightarrow> py_value" where
  "py_opt_str None = PyNone"
| "py_opt_str (Some s) = PyStr s"

fun py_opt_bool :: "bool option \<Rightarrow> py_value" where
  "py_opt_bool None = PyNone"
| "py_opt_bool (Some b) = PyBool b"

section \<open>The Item model\<close>

text \<open>
  \<^verbatim>\<open>
  class Item(BaseModel):
      name: str
      price: float
      is_offer: bool = None  # This makes the field optional
  \<close>
\<close>

record Item =
  name :: string
  price :: py_float
  is_offer :: "bool option"

text \<open>The default that the class body declares for \<^verbatim>\<open>is_offer\<close>.\<close>

definition Item_is_offer_default :: "bool option" where
  "Item_is_offer_default = None"

section \<open>The handlers\<close>

text \<open>
  \<^verbatim>\<open>
  @app.get("/")
  async def read_root():
      return {"Hello": "World"}
  \<close>
\<close>

definition read_root :: py_dict where
  "read_root = [(''Hello'', PyStr ''World'')]"

text \<open>
  \<^verbatim>\<open>
  @app.get("/items/{item_id}")
  async def read_item(item_id: int, q: str = None):
      return {"item_id": item_id, "q": q}
  \<close>
\<close>

definition read_item :: "int \<Rightarrow> string option \<Rightarrow> py_dict" where
  "read_item item_id q = [(''item_id'', PyInt item_id), (''q'', py_opt_str q)]"

text \<open>The default that the signature declares for \<^verbatim>\<open>q\<close>.\<close>

definition read_item_q_default :: "string option" where
  "read_item_q_default = None"

text \<open>
  \<^verbatim>\<open>
  @app.put("/items/{item_id}")
  async def update_item(item_id: int, item: Item):
      return {"item_name": item.name, "item_id": item_id, "updated_price": item.price}
  \<close>
\<close>

definition update_item :: "int \<Rightarrow> Item \<Rightarrow> py_dict" where
  "update_item item_id item =
     [(''item_name'', PyStr (name item)),
      (''item_id'', PyInt item_id),
      (''updated_price'', PyFloat (price item))]"

section \<open>Calling a handler with a defaulted parameter\<close>

text \<open>
  Python binds a parameter that the caller leaves out to the default of the signature.
  An argument is therefore either omitted or passed.
\<close>

datatype 'a arg = Omitted | Passed 'a

definition call_read_item :: "int \<Rightarrow> string option arg \<Rightarrow> py_dict" where
  "call_read_item item_id q =
     read_item item_id (case q of Omitted \<Rightarrow> read_item_q_default | Passed v \<Rightarrow> v)"

section \<open>The handler bodies as statements\<close>

text \<open>
  To speak of side effects, the bodies of the handlers are also given as syntax, and
  run by an evaluator of the statements of Python that matter here: a function body is
  a list of statements, executed over the local variables of the call and the global
  variables of the module. An assignment under a \<^verbatim>\<open>global\<close> declaration is the
  statement that changes the module's state; a name that is not a local variable is
  read from the globals.
\<close>

datatype py_obj =
    Val py_value
  | ItemObj Item
  | DictObj "(string \<times> py_obj) list"

datatype expr =
    Const py_value
  | Name string
  | Attr expr string
  | DictDisplay "(string \<times> expr) list"

datatype stmt =
    Return expr
  | Assign string expr
  | GlobalAssign string expr

datatype py_error = NameError | AttributeError | TypeError

type_synonym env = "string \<rightharpoonup> py_obj"

text \<open>Reading an attribute of an object: an \<^verbatim>\<open>Item\<close> has its three fields.\<close>

definition getattr :: "py_obj \<Rightarrow> string \<Rightarrow> py_error + py_obj" where
  "getattr ob a =
     (case ob of
        ItemObj item \<Rightarrow>
          if a = ''name'' then Inr (Val (PyStr (name item)))
          else if a = ''price'' then Inr (Val (PyFloat (price item)))
          else if a = ''is_offer'' then Inr (Val (py_opt_bool (is_offer item)))
          else Inl AttributeError
      | _ \<Rightarrow> Inl AttributeError)"

text \<open>
  Storing a key in a dict: a key that is already there keeps its place and takes the
  new value, a new key goes last.
\<close>

fun dict_set :: "(string \<times> 'v) list \<Rightarrow> string \<Rightarrow> 'v \<Rightarrow> (string \<times> 'v) list" where
  "dict_set [] k v = [(k, v)]"
| "dict_set ((k', v') # kvs) k v =
     (if k' = k then (k, v) # kvs else (k', v') # dict_set kvs k v)"

text \<open>
  Expressions: a name is looked up in the locals, then in the globals; the items of a
  dict display are evaluated from left to right.
\<close>

fun eval_expr :: "env \<Rightarrow> env \<Rightarrow> expr \<Rightarrow> py_error + py_obj"
  and eval_items ::
    "env \<Rightarrow> env \<Rightarrow> (string \<times> py_obj) list \<Rightarrow> (string \<times> expr) list \<Rightarrow> py_error + py_obj" where
  "eval_expr L G (Const v) = Inr (Val v)"
| "eval_expr L G (Name x) =
     (case L x of
        Some ob \<Rightarrow> Inr ob
      | None \<Rightarrow> (case G x of Some ob \<Rightarrow> Inr ob | None \<Rightarrow> Inl NameError))"
| "eval_expr L G (Attr e a) =
     (case eval_expr L G e of Inl err \<Rightarrow> Inl err | Inr ob \<Rightarrow> getattr ob a)"
| "eval_expr L G (DictDisplay kes) = eval_items L G [] kes"
| "eval_items L G acc [] = Inr (DictObj acc)"
| "eval_items L G acc ((k, e) # kes) =
     (case eval_expr L G e of
        Inl err \<Rightarrow> Inl err
      | Inr ob \<Rightarrow> eval_items L G (dict_set acc k ob) kes)"

text \<open>
  Statements: the result of a body is the value of its first \<^verbatim>\<open>return\<close> (\<^verbatim>\<open>None\<close>
  when it has none) or the exception raised, together with the globals it leaves.
\<close>

fun exec :: "env \<Rightarrow> env \<Rightarrow> stmt list \<Rightarrow> (py_error + py_obj) \<times> env" where
  "exec L G [] = (Inr (Val PyNone), G)"
| "exec L G (Return e # ss) = (eval_expr L G e, G)"
| "exec L G (Assign x e # ss) =
     (case eval_expr L G e of
        Inl err \<Rightarrow> (Inl err, G)
      | Inr ob \<Rightarrow> exec (L(x \<mapsto> ob)) G ss)"
| "exec L G (GlobalAssign x e # ss) =
     (case eval_expr L G e of
        Inl err \<Rightarrow> (Inl err, G)
      | Inr ob \<Rightarrow> exec L (G(x \<mapsto> ob)) ss)"

text \<open>A function is its parameters and its body; a call binds the arguments.\<close>

record fundef =
  fun_params :: "string list"
  fun_body :: "stmt list"

definition call :: "fundef \<Rightarrow> py_obj list \<Rightarrow> env \<Rightarrow> (py_error + py_obj) \<times> env" where
  "call f args G =
     (if length args = length (fun_params f)
      then exec (map_of (zip (fun_params f) args)) G (fun_body f)
      else (Inl TypeError, G))"

text \<open>
  The three handlers of \<^verbatim>\<open>main.py\<close>, statement by statement. None has an \<^verbatim>\<open>await\<close>, so
  the coroutine of a call runs from start to end without interruption.
  \<^verbatim>\<open>
  async def read_root():
      return {"Hello": "World"}

  async def read_item(item_id: int, q: str = None):
      return {"item_id": item_id, "q": q}

  async def update_item(item_id: int, item: Item):
      return {"item_name": item.name, "item_id": item_id, "updated_price": item.price}
  \<close>
\<close>

definition read_root_src :: fundef where
  "read_root_src =
     \<lparr>fun_params = [],
      fun_body = [Return (DictDisplay [(''Hello'', Const (PyStr ''World''))])]\<rparr>"

definition read_item_src :: fundef where
  "read_item_src =
     \<lparr>fun_params = [''item_id'', ''q''],
      fun_body = [Return (DictDisplay [(''item_id'', Name ''item_id''), (''q'', Name ''q'')])]\<rparr>"

definition update_item_src :: fundef where
  "update_item_src =
     \<lparr>fun_params = [''item_id'', ''item''],
      fun_body = [Return (DictDisplay
                [(''item_name'', Attr (Name ''item'') ''name''),
                 (''item_id'', Name ''item_id''),
                 (''updated_price'', Attr (Name ''item'') ''price'')])]\<rparr>"

text \<open>The dict that a handler returns, as an object.\<close>

definition dict_obj :: "py_dict \<Rightarrow> py_obj" where
  "dict_obj d = DictObj (map (\<lambda>(k, v). (k, Val v)) d)"

text \<open>
  What a body can do to the globals is read off its syntax: the names it assigns
  under \<^verbatim>\<open>global\<close>, and the names it reads.
\<close>

fun assigns_global :: "stmt \<Rightarrow> bool" where
  "assigns_global (GlobalAssign x e) = True"
| "assigns_global (Return e) = False"
| "assigns_global (Assign x e) = False"

section \<open>What a returned mapping reflects\<close>

text \<open>A value is reflected in a dict when some key is bound to it.\<close>

definition reflected :: "py_value \<Rightarrow> py_dict \<Rightarrow> bool" where
  "reflected v d = (v \<in> set (map snd d))"

definition update_item_reflects_all :: "int \<Rightarrow> Item \<Rightarrow> bool" where
  "update_item_reflects_all item_id item =
     (let d = update_item item_id item
      in reflected (PyInt item_id) d \<and> reflected (PyStr (name item)) d
         \<and> reflected (PyFloat (price item)) d \<and> reflected (py_opt_bool (is_offer item)) d)"

section \<open>Request validation as declared by the type hints\<close>

text \<open>
  The decorators and annotations of \<^verbatim>\<open>main.py\<close> declare what the framework does before
  it calls a handler: \<^verbatim>\<open>item_id: int\<close> is a path parameter validated as an integer,
  \<^verbatim>\<open>q: str = None\<close> an optional query parameter, \<^verbatim>\<open>item: Item\<close> a request body
  validated against the model. The code that validates (FastAPI and pydantic) is not
  part of the repository. This section models it from the declarations of \<^verbatim>\<open>main.py\<close>
  and from the specification: the framework parses path, query and body against the
  declared types, then invokes the handler; type mismatches and missing fields are
  answered with the framework's validation-error response.

  The framework's conversions of single values are parameters of the model: a
  \<open>validators\<close> record gives, for each annotation, the partial function from the raw
  input to the typed value (\<open>None\<close> where the framework rejects the input).
\<close>

datatype json =
    JNull
  | JBool bool
  | JInt int
  | JFloat py_float
  | JStr string
  | JArr "json list"
  | JObj "(string \<times> json) list"

record validators =
  int_of_str :: "string \<Rightarrow> int option"
  str_of_json :: "json \<Rightarrow> string option"
  float_of_json :: "json \<Rightarrow> py_float option"
  opt_bool_of_json :: "json \<Rightarrow> bool option option"

text \<open>
  In \<open>opt_bool_of_json\<close> the outer \<open>None\<close> is a rejection; the inner option is the
  value stored in \<^verbatim>\<open>is_offer\<close>, which is \<^verbatim>\<open>None\<close> where the framework admits a JSON
  \<^verbatim>\<open>null\<close> for a field declared \<^verbatim>\<open>bool = None\<close>.

  A validation failure is a non-empty list of errors, each with the location of the
  offending input; the framework answers it with an error response and does not call
  the handler.
\<close>

datatype err_type = Missing | Invalid

type_synonym validation_error = "string list \<times> err_type"

fun errors_of :: "validation_error list + 'a \<Rightarrow> validation_error list" where
  "errors_of (Inl es) = es"
| "errors_of (Inr _) = []"

text \<open>
  Modelled from the spec: pydantic's treatment of a declared field, which is not in the
  repository. A field declared without a default is required (a missing field is a
  validation error); one declared with a default is optional and takes the default,
  as it stands, when the object has no such key.
\<close>

definition required_field ::
  "(json \<Rightarrow> 'a option) \<Rightarrow> string \<Rightarrow> (string \<times> json) list \<Rightarrow> validation_error list + 'a" where
  "required_field validate k obj =
     (case map_of obj k of
        None \<Rightarrow> Inl [([''body'', k], Missing)]
      | Some v \<Rightarrow>
          (case validate v of
             None \<Rightarrow> Inl [([''body'', k], Invalid)]
           | Some a \<Rightarrow> Inr a))"

definition defaulted_field ::
  "(json \<Rightarrow> 'a option) \<Rightarrow> string \<Rightarrow> 'a \<Rightarrow> (string \<times> json) list \<Rightarrow> validation_error list + 'a" where
  "defaulted_field validate k dflt obj =
     (case map_of obj k of
        None \<Rightarrow> Inr dflt
      | Some v \<Rightarrow>
          (case validate v of
             None \<Rightarrow> Inl [([''body'', k], Invalid)]
           | Some a \<Rightarrow> Inr a))"

text \<open>
  Modelled from the spec: pydantic's validation of an object against \<^verbatim>\<open>Item\<close>, which is
  not in the repository; the fields, their types and the default are those of the class
  body. Construction of an \<^verbatim>\<open>Item\<close> from the items of a JSON object (the parsed dict, with
  distinct keys): the three declared fields in the order of the class body, every
  error collected; keys that the class does not declare are ignored.
\<close>

definition validate_Item :: "validators \<Rightarrow> (string \<times> json) list \<Rightarrow> validation_error list + Item" where
  "validate_Item V obj =
     (case (required_field (str_of_json V) ''name'' obj,
            required_field (float_of_json V) ''price'' obj,
            defaulted_field (opt_bool_of_json V) ''is_offer'' Item_is_offer_default obj) of
        (Inr n, Inr p, Inr b) \<Rightarrow> Inr \<lparr>name = n, price = p, is_offer = b\<rparr>
      | (rn, rp, rb) \<Rightarrow> Inl (errors_of rn @ errors_of rp @ errors_of rb))"

text \<open>
  Modelled from the spec: the framework's validation of the request body declared by
  \<^verbatim>\<open>item: Item\<close> and of the path parameter declared by \<^verbatim>\<open>item_id: int\<close>, which is not in
  the repository. The body is required and must be an object.
\<close>

definition body_Item :: "validators \<Rightarrow> json option \<Rightarrow> validation_error list + Item" where
  "body_Item V body =
     (case body of
        None \<Rightarrow> Inl [([''body''], Missing)]
      | Some (JObj obj) \<Rightarrow> validate_Item V obj
      | Some _ \<Rightarrow> Inl [([''body''], Invalid)])"

definition path_item_id :: "validators \<Rightarrow> string \<Rightarrow> validation_error list + int" where
  "path_item_id V seg =
     (case int_of_str V seg of
        None \<Rightarrow> Inl [([''path'', ''item_id''], Invalid)]
      | Some item_id \<Rightarrow> Inr item_id)"

text \<open>
  Modelled from the spec: the framework's dispatch of the three routes that the
  decorators register, which is not in the repository: validate every declared
  parameter, then call the handler. A response is \<open>Inl\<close> of the validation errors or
  \<open>Inr\<close> of the dict that the handler returned. \<open>seg\<close> is the path segment matched by
  \<^verbatim>\<open>{item_id}\<close>, \<open>q\<close> the value of the query parameter \<^verbatim>\<open>q\<close> when the request has one,
  \<open>body\<close> the parsed JSON body when the request has one.
\<close>

type_synonym response = "validation_error list + py_dict"

definition route_get_root :: response where
  "route_get_root = Inr read_root"

definition route_get_item :: "validators \<Rightarrow> string \<Rightarrow> string option \<Rightarrow> response" where
  "route_get_item V seg q =
     (case path_item_id V seg of
        Inl es \<Rightarrow> Inl es
      | Inr item_id \<Rightarrow>
          Inr (call_read_item item_id (case q of None \<Rightarrow> Omitted | Some s \<Rightarrow> Passed (Some s))))"

definition route_put_item :: "validators \<Rightarrow> string \<Rightarrow> json option \<Rightarrow> response" where
  "route_put_item V seg body =
     (case (path_item_id V seg, body_Item V body) of
        (Inr item_id, Inr item) \<Rightarrow> Inr (update_item item_id item)
      | (ri, rb) \<Rightarrow> Inl (errors_of ri @ errors_of rb))"

subsection \<open>A sample instance of the validators\<close>

text \<open>
  One instance of the parameters, used to run the routes on concrete requests: path
  segments are read as decimal integers with an optional minus sign, and a JSON value
  is accepted exactly when it already has the declared type. The theorems about the
  routes hold for every instance.
\<close>

definition digit :: "char \<Rightarrow> nat option" where
  "digit c =
     (let n = (of_char c :: nat) in if 48 \<le> n \<and> n \<le> 57 then Some (n - 48) else None)"

fun dec_nat :: "nat \<Rightarrow> string \<Rightarrow> nat option" where
  "dec_nat acc [] = Some acc"
| "dec_nat acc (c # cs) =
     (case digit c of None \<Rightarrow> None | Some d \<Rightarrow> dec_nat (10 * acc + d) cs)"

definition dec_int :: "string \<Rightarrow> int option" where
  "dec_int s =
     (case s of
        [] \<Rightarrow> None
      | c # cs \<Rightarrow>
          if c = CHR ''-'' then (if cs = [] then None else map_option (\<lambda>n. - int n) (dec_nat 0 cs))
          else map_option int (dec_nat 0 s))"

definition sample_validators :: validators where
  "sample_validators =
     \<lparr>int_of_str = dec_int,
      str_of_json = (\<lambda>j. case j of JStr s \<Rightarrow> Some s | _ \<Rightarrow> None),
      float_of_json = (\<lambda>j. case j of JFloat f \<Rightarrow> Some f | _ \<Rightarrow> None),
      opt_bool_of_json = (\<lambda>j. case j of JBool b \<Rightarrow> Some (Some b) | _ \<Rightarrow> None)\<rparr>"

text \<open>The item of the running example: a pen at 1.5, with no offer flag.\<close>

definition pen :: Item where
  "pen = \<lparr>name = ''pen'', price = float_1_5, is_offer = None\<rparr>"

definition pen_on_offer :: Item where
  "pen_on_offer = \<lparr>name = ''pen'', price = float_1_5, is_offer = Some True\<rparr>"

definition pen_fields :: "(string \<times> json) list" where
  "pen_fields = [(''name'', JStr ''pen''), (''price'', JFloat float_1_5)]"

section \<open>Lemmas about validation\<close>

lemma required_field_missing:
  "map_of obj k = None \<Longrightarrow> required_field validate k obj = Inl [([''body'', k], Missing)]"
  by (simp add: required_field_def)

lemma required_field_valid:
  "map_of obj k = Some v \<Longrightarrow> validate v = Some a \<Longrightarrow> required_field validate k obj = Inr a"
  by (simp add: required_field_def)

lemma defaulted_field_missing:
  "map_of obj k = None \<Longrightarrow> defaulted_field validate k dflt obj = Inr dflt"
  by (simp add: defaulted_field_def)

lemma validate_Item_Inr:
  assumes "required_field (str_of_json V) ''name'' obj = Inr n"
    and "required_field (float_of_json V) ''price'' obj = Inr p"
    and "defaulted_field (opt_bool_of_json V) ''is_offer'' Item_is_offer_default obj = Inr b"
  shows "validate_Item V obj = Inr \<lparr>name = n, price = p, is_offer = b\<rparr>"
  using assms by (simp add: validate_Item_def)

lemma validate_Item_Inl:
  assumes "isl (required_field (str_of_json V) ''name'' obj)
           \<or> isl (required_field (float_of_json V) ''price'' obj)
           \<or> isl (defaulted_field (opt_bool_of_json V) ''is_offer'' Item_is_offer_default obj)"
  shows "isl (validate_Item V obj)"
  using assms by (auto simp: validate_Item_def split: sum.splits)

lemma validate_Item_fields:
  assumes "validate_Item V obj = Inr item"
  shows "required_field (str_of_json V) ''name'' obj = Inr (name item)"
    and "required_field (float_of_json V) ''price'' obj = Inr (price item)"
    and "defaulted_field (opt_bool_of_json V) ''is_offer'' Item_is_offer_default obj
         = Inr (is_offer item)"
  using assms by (auto simp: validate_Item_def split: sum.splits)

lemma path_item_id_invalid:
  "int_of_str V seg = None \<Longrightarrow> path_item_id V seg = Inl [([''path'', ''item_id''], Invalid)]"
  by (simp add: path_item_id_def)

lemma path_item_id_valid:
  "int_of_str V seg = Some item_id \<Longrightarrow> path_item_id V seg = Inr item_id"
  by (simp add: path_item_id_def)

lemma route_get_item_valid:
  assumes "int_of_str V seg = Some item_id"
  shows "route_get_item V seg q = Inr (read_item item_id q)"
  using assms
  by (cases q)
     (simp_all add: route_get_item_def path_item_id_valid call_read_item_def
        read_item_q_default_def)

lemma route_put_item_valid:
  assumes "int_of_str V seg = Some item_id" and "validate_Item V obj = Inr item"
  shows "route_put_item V seg (Some (JObj obj)) = Inr (update_item item_id item)"
  using assms by (simp add: route_put_item_def path_item_id_valid body_Item_def)

lemma route_put_item_body_invalid:
  assumes "isl (validate_Item V obj)"
  shows "isl (route_put_item V seg (Some (JObj obj)))"
  using assms by (auto simp: route_put_item_def body_Item_def split: sum.splits)

text \<open>A validation failure always names at least one error.\<close>

lemma validate_Item_errors_nonempty: "validate_Item V obj = Inl es \<Longrightarrow> es \<noteq> []"
  by (auto simp: validate_Item_def required_field_def defaulted_field_def
        split: sum.splits option.splits)

lemma sample_int_42: "int_of_str sample_validators ''42'' = Some 42"
  by (simp add: sample_validators_def dec_int_def digit_def)

lemma sample_int_7: "int_of_str sample_validators ''7'' = Some 7"
  by (simp add: sample_validators_def dec_int_def digit_def)

lemma sample_int_abc: "int_of_str sample_validators ''abc'' = None"
  by (simp add: sample_validators_def dec_int_def digit_def)

lemma sample_str_pen: "str_of_json sample_validators (JStr ''pen'') = Some ''pen''"
  by (simp add: sample_validators_def)

lemma sample_float_1_5: "float_of_json sample_validators (JFloat float_1_5) = Some float_1_5"
  by (simp add: sample_validators_def)

text \<open>The examples of the specification, as requests.\<close>

lemma route_get_root_example: "route_get_root = Inr [(''Hello'', PyStr ''World'')]"
  by (simp add: route_get_root_def read_root_def)

lemma route_get_item_example_q:
  "route_get_item sample_validators ''42'' (Some ''foo'')
   = Inr [(''item_id'', PyInt 42), (''q'', PyStr ''foo'')]"
  by (simp add: route_get_item_valid [OF sample_int_42] read_item_def)

lemma route_get_item_example_no_q:
  "route_get_item sample_validators ''42'' None = Inr [(''item_id'', PyInt 42), (''q'', PyNone)]"
  by (simp add: route_get_item_valid [OF sample_int_42] read_item_def)

lemma validate_Item_pen: "validate_Item sample_validators pen_fields = Inr pen"
proof -
  have "required_field (str_of_json sample_validators) ''name'' pen_fields = Inr ''pen''"
    by (rule required_field_valid [where v = "JStr ''pen''"])
       (simp_all add: pen_fields_def sample_str_pen)
  moreover have "required_field (float_of_json sample_validators) ''price'' pen_fields
                 = Inr float_1_5"
    by (rule required_field_valid [where v = "JFloat float_1_5"])
       (simp_all add: pen_fields_def sample_float_1_5)
  moreover have "defaulted_field (opt_bool_of_json sample_validators) ''is_offer''
                   Item_is_offer_default pen_fields = Inr None"
    by (simp add: defaulted_field_missing pen_fields_def Item_is_offer_default_def)
  ultimately show ?thesis
    by (simp add: validate_Item_Inr pen_def)
qed

lemma route_put_item_example:
  "route_put_item sample_validators ''7'' (Some (JObj pen_fields))
   = Inr [(''item_name'', PyStr ''pen''), (''item_id'', PyInt 7),
          (''updated_price'', PyFloat float_1_5)]"
  by (simp add: route_put_item_valid [OF sample_int_7 validate_Item_pen] update_item_def pen_def)

section \<open>Properties of the handlers\<close>

text \<open>
  C5. \<^verbatim>\<open>read_root\<close> returns exactly the mapping \<^verbatim>\<open>{"Hello": "World"}\<close>: the key
  \<^verbatim>\<open>Hello\<close> is bound to the string \<^verbatim>\<open>World\<close>, and it is the only key. The handler has
  no parameter, so this is its result at every invocation.
\<close>

theorem read_root_hello_world:
  "read_root = [(''Hello'', PyStr ''World'')]
   \<and> map_of read_root ''Hello'' = Some (PyStr ''World'')
   \<and> dom (map_of read_root) = {''Hello''}"
  by (simp add: read_root_def dom_def)

text \<open>
  C1. For every integer \<open>item_id\<close> and every \<^verbatim>\<open>Item\<close> with fields \<open>n\<close> and \<open>p\<close> for
  \<^verbatim>\<open>name\<close> and \<^verbatim>\<open>price\<close> (and any \<^verbatim>\<open>is_offer\<close>), \<^verbatim>\<open>update_item\<close> returns the mapping
  with \<^verbatim>\<open>item_name\<close> bound to \<open>n\<close>, \<^verbatim>\<open>item_id\<close> to \<open>item_id\<close> and \<^verbatim>\<open>updated_price\<close>
  to \<open>p\<close>, all unchanged. In particular, for item 7 and the pen at 1.5 it returns
  \<^verbatim>\<open>{"item_name": "pen", "item_id": 7, "updated_price": 1.5}\<close>.
\<close>

theorem update_item_returns_name_id_price:
  "update_item item_id \<lparr>name = n, price = p, is_offer = b\<rparr>
     = [(''item_name'', PyStr n), (''item_id'', PyInt item_id), (''updated_price'', PyFloat p)]
   \<and> update_item 7 pen
     = [(''item_name'', PyStr ''pen''), (''item_id'', PyInt 7),
        (''updated_price'', PyFloat float_1_5)]"
  by (simp add: update_item_def pen_def)

text \<open>
  C2. For every integer \<open>item_id\<close> and every string \<open>q\<close>, \<^verbatim>\<open>read_item\<close> returns the
  mapping with \<^verbatim>\<open>item_id\<close> bound to \<open>item_id\<close> and \<^verbatim>\<open>q\<close> bound to \<open>q\<close>, both
  unchanged, whether it is called directly or with \<open>q\<close> passed as an argument. In
  particular, for 42 and \<^verbatim>\<open>foo\<close> it returns \<^verbatim>\<open>{"item_id": 42, "q": "foo"}\<close>.
\<close>

theorem read_item_echoes_id_and_q:
  "read_item item_id (Some q) = [(''item_id'', PyInt item_id), (''q'', PyStr q)]
   \<and> call_read_item item_id (Passed (Some q)) = [(''item_id'', PyInt item_id), (''q'', PyStr q)]
   \<and> read_item 42 (Some ''foo'') = [(''item_id'', PyInt 42), (''q'', PyStr ''foo'')]"
  by (simp add: read_item_def call_read_item_def)

text \<open>
  C3. For every integer \<open>item_id\<close>, calling \<^verbatim>\<open>read_item\<close> without \<^verbatim>\<open>q\<close> returns
  \<^verbatim>\<open>{"item_id": item_id, "q": null}\<close>: the omitted parameter takes its default
  \<^verbatim>\<open>None\<close>. Hence a GET request for \<^verbatim>\<open>/items/{item_id}\<close> without the query parameter,
  whose path segment validates to \<open>item_id\<close>, is answered with that mapping.
\<close>

theorem read_item_q_defaults_to_null:
  "call_read_item item_id Omitted = [(''item_id'', PyInt item_id), (''q'', PyNone)]
   \<and> (int_of_str V seg = Some item_id \<longrightarrow>
        route_get_item V seg None = Inr [(''item_id'', PyInt item_id), (''q'', PyNone)])"
proof (intro conjI impI)
  show "call_read_item item_id Omitted = [(''item_id'', PyInt item_id), (''q'', PyNone)]"
    by (simp add: call_read_item_def read_item_q_default_def read_item_def)
next
  assume "int_of_str V seg = Some item_id"
  then have "route_get_item V seg None = Inr (read_item item_id None)"
    by (rule route_get_item_valid)
  then show "route_get_item V seg None = Inr [(''item_id'', PyInt item_id), (''q'', PyNone)]"
    by (simp add: read_item_def)
qed

theorem read_item_q_defaults_to_null_witness:
  "int_of_str sample_validators ''42'' = Some 42
   \<and> call_read_item 42 Omitted = [(''item_id'', PyInt 42), (''q'', PyNone)]
   \<and> route_get_item sample_validators ''42'' None = Inr [(''item_id'', PyInt 42), (''q'', PyNone)]"
proof -
  note t = read_item_q_defaults_to_null [of 42 sample_validators "''42''"]
  have h: "int_of_str sample_validators ''42'' = Some 42"
    by (rule sample_int_42)
  from t have "call_read_item 42 Omitted = [(''item_id'', PyInt 42), (''q'', PyNone)]"
    by (rule conjunct1)
  moreover from t h
  have "route_get_item sample_validators ''42'' None = Inr [(''item_id'', PyInt 42), (''q'', PyNone)]"
    by blast
  ultimately show ?thesis
    using h by simp
qed

text \<open>
  C9. The result of \<^verbatim>\<open>update_item\<close> does not depend on \<^verbatim>\<open>is_offer\<close>: for every
  \<open>item_id\<close>, two items that agree on \<^verbatim>\<open>name\<close> and \<^verbatim>\<open>price\<close> give equal mappings
  (whatever their \<^verbatim>\<open>is_offer\<close>), and the returned mapping has no key \<^verbatim>\<open>is_offer\<close>.
\<close>

theorem update_item_independent_of_is_offer:
  assumes "name a = name b" and "price a = price b"
  shows "update_item item_id a = update_item item_id b
         \<and> map_of (update_item item_id a) ''is_offer'' = None
         \<and> ''is_offer'' \<notin> set (map fst (update_item item_id a))"
  using assms by (simp add: update_item_def)

theorem update_item_independent_of_is_offer_witness:
  "name pen = name pen_on_offer \<and> price pen = price pen_on_offer
   \<and> is_offer pen = None \<and> is_offer pen_on_offer = Some True
   \<and> update_item 7 pen = update_item 7 pen_on_offer
   \<and> map_of (update_item 7 pen) ''is_offer'' = None
   \<and> ''is_offer'' \<notin> set (map fst (update_item 7 pen))"
proof -
  have n: "name pen = name pen_on_offer" and p: "price pen = price pen_on_offer"
    by (simp_all add: pen_def pen_on_offer_def)
  have "is_offer pen = None" and "is_offer pen_on_offer = Some True"
    by (simp_all add: pen_def pen_on_offer_def)
  with n p update_item_independent_of_is_offer [OF n p, of 7] show ?thesis
    by blast
qed

section \<open>Side effects of the handlers\<close>

text \<open>
  A body without an assignment under \<^verbatim>\<open>global\<close> leaves the globals as they were,
  whatever it returns or raises.
\<close>

lemma exec_without_global_assignment:
  "\<not> list_ex assigns_global ss \<Longrightarrow> snd (exec L G ss) = G"
  by (induction L G ss rule: exec.induct) (auto split: sum.splits)

lemma call_without_global_assignment:
  "\<not> list_ex assigns_global (fun_body f) \<Longrightarrow> snd (call f args G) = G"
  by (simp add: call_def exec_without_global_assignment)

text \<open>
  Bodies of other shapes do have effects, or depend on the state: one that counts its
  calls in a global changes the globals, and one that returns a global name returns
  what the globals hold.
\<close>

lemma exec_global_assignment_changes_state:
  "snd (exec L Map.empty [GlobalAssign ''hits'' (Const (PyInt 1)), Return (Const PyNone)])
   \<noteq> Map.empty"
proof
  assume "snd (exec L Map.empty [GlobalAssign ''hits'' (Const (PyInt 1)), Return (Const PyNone)])
          = Map.empty"
  then have "(Map.empty(''hits'' \<mapsto> Val (PyInt 1))) ''hits'' = (Map.empty :: env) ''hits''"
    by simp
  then show False
    by simp
qed

lemma exec_global_name_depends_on_state:
  "fst (exec Map.empty (Map.empty(''title'' \<mapsto> Val (PyStr ''a''))) [Return (Name ''title'')])
   \<noteq> fst (exec Map.empty (Map.empty(''title'' \<mapsto> Val (PyStr ''b''))) [Return (Name ''title'')])"
  by simp

lemma handler_bodies_no_global_assignment:
  "\<not> list_ex assigns_global (fun_body read_root_src)"
  "\<not> list_ex assigns_global (fun_body read_item_src)"
  "\<not> list_ex assigns_global (fun_body update_item_src)"
  by (simp_all add: read_root_src_def read_item_src_def update_item_src_def)

lemma call_read_root_src_value:
  "fst (call read_root_src [] G) = Inr (dict_obj read_root)"
  by (simp add: call_def read_root_src_def read_root_def dict_obj_def)

lemma call_read_item_src_value:
  "fst (call read_item_src [Val (PyInt item_id), Val (py_opt_str q)] G)
   = Inr (dict_obj (read_item item_id q))"
  by (simp add: call_def read_item_src_def read_item_def dict_obj_def)

lemma call_update_item_src_value:
  "fst (call update_item_src [Val (PyInt item_id), ItemObj item] G)
   = Inr (dict_obj (update_item item_id item))"
  by (simp add: call_def update_item_src_def update_item_def dict_obj_def getattr_def)

text \<open>
  C8. The three handlers are stateless, free of side effects and deterministic. A call
  of each handler body, with arguments of the declared types and in any state \<open>G\<close> of
  the module's globals, raises nothing, leaves \<open>G\<close> as it was, and returns the mapping
  that is determined by the arguments alone: in two states \<open>G\<close> and \<open>G'\<close>, calls with
  equal arguments return equal results.
\<close>

theorem handler_calls_leave_state_and_ignore_it:
  "call read_root_src [] G = (Inr (dict_obj read_root), G)
   \<and> call read_item_src [Val (PyInt item_id), Val (py_opt_str q)] G
     = (Inr (dict_obj (read_item item_id q)), G)
   \<and> call update_item_src [Val (PyInt item_id), ItemObj item] G
     = (Inr (dict_obj (update_item item_id item)), G)
   \<and> fst (call read_root_src [] G) = fst (call read_root_src [] G')
   \<and> fst (call read_item_src [Val (PyInt item_id), Val (py_opt_str q)] G)
     = fst (call read_item_src [Val (PyInt item_id), Val (py_opt_str q)] G')
   \<and> fst (call update_item_src [Val (PyInt item_id), ItemObj item] G)
     = fst (call update_item_src [Val (PyInt item_id), ItemObj item] G')"
proof -
  have state:
    "snd (call read_root_src [] G) = G"
    "snd (call read_item_src [Val (PyInt item_id), Val (py_opt_str q)] G) = G"
    "snd (call update_item_src [Val (PyInt item_id), ItemObj item] G) = G"
    by (simp_all only: call_without_global_assignment handler_bodies_no_global_assignment
          not_False_eq_True)
  have "call read_root_src [] G = (Inr (dict_obj read_root), G)"
    using state(1) call_read_root_src_value [of G] by (simp add: prod_eq_iff)
  moreover
  have "call read_item_src [Val (PyInt item_id), Val (py_opt_str q)] G
        = (Inr (dict_obj (read_item item_id q)), G)"
    using state(2) call_read_item_src_value [of item_id q G] by (simp add: prod_eq_iff)
  moreover
  have "call update_item_src [Val (PyInt item_id), ItemObj item] G
        = (Inr (dict_obj (update_item item_id item)), G)"
    using state(3) call_update_item_src_value [of item_id item G] by (simp add: prod_eq_iff)
  ultimately show ?thesis
    by (simp add: call_read_root_src_value call_read_item_src_value
          call_update_item_src_value)
qed

text \<open>
  C6, as stated: every attribute of the body given to \<^verbatim>\<open>update_item\<close>, \<^verbatim>\<open>is_offer\<close>
  included, is reflected in the returned mapping. This fails for the pen on offer:
  no key of the mapping is bound to its \<^verbatim>\<open>is_offer\<close>.
\<close>

theorem update_item_reflects_all_counterexample:
  "\<not> update_item_reflects_all 7 pen_on_offer"
  by (simp add: update_item_reflects_all_def reflected_def update_item_def pen_on_offer_def)

text \<open>
  C6, amended: the mapping returned by \<^verbatim>\<open>update_item\<close> reflects \<open>item_id\<close> and the
  body's \<^verbatim>\<open>name\<close> and \<^verbatim>\<open>price\<close> unchanged, under the keys \<^verbatim>\<open>item_name\<close>, \<^verbatim>\<open>item_id\<close>
  and \<^verbatim>\<open>updated_price\<close> and no other; the body's \<^verbatim>\<open>is_offer\<close> is not reflected. The
  mapping returned by \<^verbatim>\<open>read_item\<close> reflects both of its inputs unchanged.
\<close>

theorem update_item_reflects_name_and_price_only:
  "map_of (update_item item_id item) ''item_id'' = Some (PyInt item_id)
   \<and> map_of (update_item item_id item) ''item_name'' = Some (PyStr (name item))
   \<and> map_of (update_item item_id item) ''updated_price'' = Some (PyFloat (price item))
   \<and> map fst (update_item item_id item) = [''item_name'', ''item_id'', ''updated_price'']
   \<and> \<not> reflected (py_opt_bool (is_offer item)) (update_item item_id item)
   \<and> reflected (PyInt item_id) (read_item item_id q)
   \<and> reflected (py_opt_str q) (read_item item_id q)"
  by (cases "is_offer item") (simp_all add: update_item_def read_item_def reflected_def)

section \<open>Properties of request validation\<close>

text \<open>
  C4. A request to GET or PUT \<^verbatim>\<open>/items/{item_id}\<close> whose path segment does not
  validate as an integer is answered with a validation failure that names the path
  parameter, never with a handler's mapping, whatever the query parameter and the body
  are.
\<close>

theorem non_integer_item_id_is_rejected:
  assumes "int_of_str V seg = None"
  shows "route_get_item V seg q = Inl [([''path'', ''item_id''], Invalid)]
         \<and> isl (route_put_item V seg body)
         \<and> ([''path'', ''item_id''], Invalid) \<in> set (errors_of (route_put_item V seg body))"
proof -
  have p: "path_item_id V seg = Inl [([''path'', ''item_id''], Invalid)]"
    using assms by (rule path_item_id_invalid)
  have "route_get_item V seg q = Inl [([''path'', ''item_id''], Invalid)]"
    by (simp add: route_get_item_def p)
  moreover have "route_put_item V seg body
                 = Inl (([''path'', ''item_id''], Invalid) # errors_of (body_Item V body))"
    by (simp add: route_put_item_def p split: sum.splits)
  ultimately show ?thesis
    by simp
qed

theorem non_integer_item_id_is_rejected_witness:
  "int_of_str sample_validators ''abc'' = None
   \<and> route_get_item sample_validators ''abc'' (Some ''foo'') = Inl [([''path'', ''item_id''], Invalid)]
   \<and> isl (route_put_item sample_validators ''abc'' (Some (JObj pen_fields)))
   \<and> ([''path'', ''item_id''], Invalid)
       \<in> set (errors_of (route_put_item sample_validators ''abc'' (Some (JObj pen_fields))))"
  using sample_int_abc
    non_integer_item_id_is_rejected [OF sample_int_abc, of "Some ''foo''" "Some (JObj pen_fields)"]
  by simp

text \<open>
  C7. Validation of the body of PUT \<^verbatim>\<open>/items/{item_id}\<close> requires \<^verbatim>\<open>name\<close> and
  \<^verbatim>\<open>price\<close>: an object without either is a validation failure, of the model and of
  the request. It accepts an object without \<^verbatim>\<open>is_offer\<close>: when \<^verbatim>\<open>name\<close> and \<^verbatim>\<open>price\<close>
  are present and valid, the item is constructed, and the request (with a valid path
  segment) is answered by \<^verbatim>\<open>update_item\<close>.
\<close>

theorem Item_requires_name_and_price_not_is_offer:
  "(map_of obj ''name'' = None \<or> map_of obj ''price'' = None \<longrightarrow>
      isl (validate_Item V obj) \<and> isl (route_put_item V seg (Some (JObj obj))))
   \<and> (map_of obj ''name'' = Some vn \<and> str_of_json V vn = Some n
       \<and> map_of obj ''price'' = Some vp \<and> float_of_json V vp = Some p
       \<and> map_of obj ''is_offer'' = None \<longrightarrow>
         validate_Item V obj = Inr \<lparr>name = n, price = p, is_offer = None\<rparr>
         \<and> (int_of_str V seg = Some item_id \<longrightarrow>
              route_put_item V seg (Some (JObj obj))
              = Inr (update_item item_id \<lparr>name = n, price = p, is_offer = None\<rparr>)))"
proof (intro conjI impI)
  assume "map_of obj ''name'' = None \<or> map_of obj ''price'' = None"
  then have "isl (required_field (str_of_json V) ''name'' obj)
             \<or> isl (required_field (float_of_json V) ''price'' obj)
             \<or> isl (defaulted_field (opt_bool_of_json V) ''is_offer'' Item_is_offer_default obj)"
    by (auto simp: required_field_missing)
  then show "isl (validate_Item V obj)"
    by (rule validate_Item_Inl)
  then show "isl (route_put_item V seg (Some (JObj obj)))"
    by (rule route_put_item_body_invalid)
next
  assume a: "map_of obj ''name'' = Some vn \<and> str_of_json V vn = Some n
             \<and> map_of obj ''price'' = Some vp \<and> float_of_json V vp = Some p
             \<and> map_of obj ''is_offer'' = None"
  then have "required_field (str_of_json V) ''name'' obj = Inr n"
    and "required_field (float_of_json V) ''price'' obj = Inr p"
    and "defaulted_field (opt_bool_of_json V) ''is_offer'' Item_is_offer_default obj = Inr None"
    by (simp_all add: required_field_valid defaulted_field_missing Item_is_offer_default_def)
  then show v: "validate_Item V obj = Inr \<lparr>name = n, price = p, is_offer = None\<rparr>"
    by (rule validate_Item_Inr)
  assume "int_of_str V seg = Some item_id"
  then show "route_put_item V seg (Some (JObj obj))
             = Inr (update_item item_id \<lparr>name = n, price = p, is_offer = None\<rparr>)"
    using v by (rule route_put_item_valid)
qed

theorem Item_requires_name_and_price_not_is_offer_witness:
  "map_of [(''price'', JFloat float_1_5)] ''name'' = None
   \<and> isl (validate_Item sample_validators [(''price'', JFloat float_1_5)])
   \<and> isl (route_put_item sample_validators ''7'' (Some (JObj [(''price'', JFloat float_1_5)])))
   \<and> map_of [(''name'', JStr ''pen'')] ''price'' = None
   \<and> isl (validate_Item sample_validators [(''name'', JStr ''pen'')])
   \<and> isl (route_put_item sample_validators ''7'' (Some (JObj [(''name'', JStr ''pen'')])))
   \<and> map_of pen_fields ''is_offer'' = None
   \<and> validate_Item sample_validators pen_fields = Inr pen
   \<and> route_put_item sample_validators ''7'' (Some (JObj pen_fields)) = Inr (update_item 7 pen)"
proof -
  have no_name: "map_of [(''price'', JFloat float_1_5)] ''name'' = None"
    and no_price: "map_of [(''name'', JStr ''pen'')] ''price'' = None"
    by simp_all
  have ok: "map_of pen_fields ''name'' = Some (JStr ''pen'')
            \<and> str_of_json sample_validators (JStr ''pen'') = Some ''pen''
            \<and> map_of pen_fields ''price'' = Some (JFloat float_1_5)
            \<and> float_of_json sample_validators (JFloat float_1_5) = Some float_1_5
            \<and> map_of pen_fields ''is_offer'' = None"
    by (simp add: pen_fields_def sample_str_pen sample_float_1_5)
  from no_name
    Item_requires_name_and_price_not_is_offer
      [of "[(''price'', JFloat float_1_5)]" sample_validators "''7''"]
  have 1: "isl (validate_Item sample_validators [(''price'', JFloat float_1_5)])
           \<and> isl (route_put_item sample_validators ''7''
                   (Some (JObj [(''price'', JFloat float_1_5)])))"
    by blast
  from no_price
    Item_requires_name_and_price_not_is_offer
      [of "[(''name'', JStr ''pen'')]" sample_validators "''7''"]
  have 2: "isl (validate_Item sample_validators [(''name'', JStr ''pen'')])
           \<and> isl (route_put_item sample_validators ''7'' (Some (JObj [(''name'', JStr ''pen'')])))"
    by blast
  from ok sample_int_7
    Item_requires_name_and_price_not_is_offer
      [of pen_fields sample_validators "''7''" "JStr ''pen''" "''pen''" "JFloat float_1_5"
          float_1_5 7]
  have 3: "validate_Item sample_validators pen_fields
             = Inr \<lparr>name = ''pen'', price = float_1_5, is_offer = None\<rparr>
           \<and> route_put_item sample_validators ''7'' (Some (JObj pen_fields))
             = Inr (update_item 7 \<lparr>name = ''pen'', price = float_1_5, is_offer = None\<rparr>)"
    by blast
  from no_name no_price ok 1 2 3 show ?thesis
    by (simp add: pen_def)
qed

text \<open>
  C10. An \<^verbatim>\<open>Item\<close> constructed from an object without \<^verbatim>\<open>is_offer\<close> has \<^verbatim>\<open>is_offer\<close>
  equal to \<^verbatim>\<open>None\<close>, the default declared in the class body, and not \<^verbatim>\<open>False\<close>:
  the declared default of the field is \<^verbatim>\<open>None\<close>, although its annotation is \<^verbatim>\<open>bool\<close>.
\<close>

theorem Item_is_offer_defaults_to_None:
  assumes "validate_Item V obj = Inr item" and "map_of obj ''is_offer'' = None"
  shows "is_offer item = None \<and> is_offer item \<noteq> Some False
         \<and> py_opt_bool (is_offer item) = PyNone
         \<and> is_offer item = Item_is_offer_default"
proof -
  have "defaulted_field (opt_bool_of_json V) ''is_offer'' Item_is_offer_default obj
        = Inr (is_offer item)"
    using assms(1) by (rule validate_Item_fields)
  with assms(2) have "is_offer item = None"
    by (simp add: defaulted_field_missing Item_is_offer_default_def)
  then show ?thesis
    by (simp add: Item_is_offer_default_def)
qed

theorem Item_is_offer_defaults_to_None_witness:
  "validate_Item sample_validators pen_fields = Inr pen
   \<and> map_of pen_fields ''is_offer'' = None
   \<and> is_offer pen = None \<and> is_offer pen \<noteq> Some False
   \<and> py_opt_bool (is_offer pen) = PyNone
   \<and> is_offer pen = Item_is_offer_default"
proof -
  have h: "map_of pen_fields ''is_offer'' = None"
    by (simp add: pen_fields_def)
  from Item_is_offer_defaults_to_None [OF validate_Item_pen h] validate_Item_pen h
  show ?thesis
    by blast
qed

end
